theory Spec2Isabelle
  imports Main
begin

section \<open>Python values used by the handlers of server.py\<close>

text \<open>
  A Python \<open>str\<close> is modelled as a \<open>string\<close> whose characters are the code points of the
  text; the model covers code points below 256 (ASCII and Latin-1), which is enough for
  every literal of server.py. \<open>str.lower\<close>, \<open>str.upper\<close> and \<open>str.strip\<close> are written out
  for that range. (\<open>upper\<close> of the code points 181 and 255 leaves Latin-1 in Python and is
  left unchanged here; premium codes and e-mail addresses are ASCII.)
\<close>

definition lower_char :: "char \<Rightarrow> char" where
  "lower_char c =
     (let n = (of_char c :: nat)
      in if (65 \<le> n \<and> n \<le> 90) \<or> (192 \<le> n \<and> n \<le> 222 \<and> n \<noteq> 215)
         then char_of (n + 32) else c)"

definition lower :: "string \<Rightarrow> string" where
  "lower s = map lower_char s"

definition upper_char :: "char \<Rightarrow> string" where
  "upper_char c =
     (let n = (of_char c :: nat)
      in if (97 \<le> n \<and> n \<le> 122) \<or> (224 \<le> n \<and> n \<le> 254 \<and> n \<noteq> 247)
         then [char_of (n - 32)]
         else if n = 223 then ''SS'' else [c])"

definition upper :: "string \<Rightarrow> string" where
  "upper s = concat (map upper_char s)"

definition isspace :: "char \<Rightarrow> bool" where
  "isspace c =
     (let n = (of_char c :: nat)
      in (9 \<le> n \<and> n \<le> 13) \<or> (28 \<le> n \<and> n \<le> 32) \<or> n = 133 \<or> n = 160)"

definition strip :: "string \<Rightarrow> string" where
  "strip s = rev (dropWhile isspace (rev (dropWhile isspace s)))"

fun startswith :: "string \<Rightarrow> string \<Rightarrow> bool" where
  "startswith s [] = True"
| "startswith [] (p # ps) = False"
| "startswith (c # cs) (p # ps) = (c = p \<and> startswith cs ps)"

text \<open>\<open>contains s sub\<close> is Python's \<open>sub in s\<close> on strings.\<close>

fun contains :: "string \<Rightarrow> string \<Rightarrow> bool" where
  "contains [] sub = (sub = [])"
| "contains (c # cs) sub = (startswith (c # cs) sub \<or> contains cs sub)"

text \<open>
  A \<open>datetime\<close> is the number of microseconds since the epoch (naive UTC, as
  \<open>datetime.utcnow()\<close> gives it); a \<open>timedelta\<close> is a number of microseconds.
  \<open>replace(hour=0, minute=0, second=0, microsecond=0)\<close> is \<open>midnight\<close>, and
  \<open>timedelta.days\<close> is the floor of the duration in days.
\<close>

type_synonym datetime = int

definition day_us :: int where
  "day_us = 86400000000"

definition timedelta_days :: "int \<Rightarrow> int" where
  "timedelta_days n = n * day_us"

definition midnight :: "datetime \<Rightarrow> datetime" where
  "midnight t = (t div day_us) * day_us"

definition days_of :: "int \<Rightarrow> int" where
  "days_of d = d div day_us"

text \<open>
  \<open>strftime("%Y-%m-%d")\<close> names the calendar day of a datetime; the model uses the number
  of that day, which is the same for two datetimes exactly when the strings are.
\<close>

definition date_key :: "datetime \<Rightarrow> int" where
  "date_key t = t div day_us"

text \<open>Python's \<open>range(a, b)\<close>: the integers from \<open>a\<close> up to \<open>b - 1\<close>.\<close>

definition py_range :: "int \<Rightarrow> int \<Rightarrow> int list" where
  "py_range a b = [a..b - 1]"

text \<open>Truthiness of an optional string: \<open>None\<close> and the empty string are false.\<close>

fun truthy :: "string option \<Rightarrow> bool" where
  "truthy None = False"
| "truthy (Some s) = (s \<noteq> [])"

text \<open>\<open>a or b\<close> on optional strings.\<close>

definition py_or :: "string option \<Rightarrow> string option \<Rightarrow> string option" where
  "py_or a b = (if truthy a then a else b)"

section \<open>Quiz scorer: \<open>analyze_quiz\<close>\<close>

record quiz_answer =
  question :: string
  answer :: string

record scores =
  oily_score :: int
  dry_score :: int
  acne_score :: int
  sensitive_score :: int

record quiz_analysis =
  skin_type :: string
  characteristics :: string
  recommendations :: string

definition kw_ardencia :: string where
  "kw_ardencia = ''ard'' @ [CHR 0xEA] @ ''ncia''"

definition kw_sensivel :: string where
  "kw_sensivel = ''sens'' @ [CHR 0xED] @ ''vel''"

text \<open>
  \<open>if c: score += n\<close> is \<open>when c (add_\<dots> n)\<close>: the scores change only when the test holds.
\<close>

definition "when" :: "bool \<Rightarrow> ('a \<Rightarrow> 'a) \<Rightarrow> 'a \<Rightarrow> 'a" where
  "when c f s = (if c then f s else s)"

definition add_oily :: "int \<Rightarrow> scores \<Rightarrow> scores" where
  "add_oily n s = s\<lparr>oily_score := oily_score s + n\<rparr>"

definition add_dry :: "int \<Rightarrow> scores \<Rightarrow> scores" where
  "add_dry n s = s\<lparr>dry_score := dry_score s + n\<rparr>"

definition add_acne :: "int \<Rightarrow> scores \<Rightarrow> scores" where
  "add_acne n s = s\<lparr>acne_score := acne_score s + n\<rparr>"

definition add_sensitive :: "int \<Rightarrow> scores \<Rightarrow> scores" where
  "add_sensitive n s = s\<lparr>sensitive_score := sensitive_score s + n\<rparr>"

text \<open>The body of the loop over the answers: six independent tests, in source order.\<close>

definition score_answer :: "scores \<Rightarrow> quiz_answer \<Rightarrow> scores" where
  "score_answer s0 ans =
     (let q = lower (question ans);
          a = lower (answer ans);
          s1 = when (contains q ''brilha'' \<and> contains a ''sim'') (add_oily 2) s0;
          s2 = when (contains q ''oleosidade'' \<and> contains a ''sim'') (add_oily 2) s1;
          s3 = when (contains q ''ressecamento'' \<and> contains a ''sim'') (add_dry 2) s2;
          s4 = when (contains q ''acne'' \<and> contains a ''sim'') (add_acne 2) s3;
          s5 = when (contains q kw_ardencia \<or> contains q kw_sensivel)
                 (when (contains a ''sim'') (add_sensitive 2)) s4;
          s6 = when (contains q ''manchas'' \<and> contains a ''sim'') (add_sensitive 1) s5
      in s6)"

fun score_loop :: "scores \<Rightarrow> quiz_answer list \<Rightarrow> scores" where
  "score_loop s [] = s"
| "score_loop s (ans # rest) = score_loop (score_answer s ans) rest"

definition quiz_scores :: "quiz_answer list \<Rightarrow> scores" where
  "quiz_scores answers =
     score_loop \<lparr>oily_score = 0, dry_score = 0, acne_score = 0, sensitive_score = 0\<rparr> answers"

definition analyze_quiz :: "quiz_answer list \<Rightarrow> quiz_analysis" where
  "analyze_quiz answers =
     (let s = quiz_scores answers
      in if acne_score s \<ge> 2 then
           \<lparr>skin_type = ''Acneica'',
            characteristics = ''Pele com tend'' @ [CHR 0xEA] @ ''ncia a acne, pode ter oleosidade aumentada e poros dilatados.'',
            recommendations = ''Produtos espec'' @ [CHR 0xED] @ ''ficos para acne, limpeza suave e hidrata''
               @ [CHR 0xE7, CHR 0xE3] @ ''o oil-free.''\<rparr>
         else if sensitive_score s \<ge> 2 then
           \<lparr>skin_type = ''Sens'' @ [CHR 0xED] @ ''vel'',
            characteristics = ''Pele reativa, pode apresentar vermelhid'' @ [CHR 0xE3] @ ''o e ard''
               @ [CHR 0xEA] @ ''ncia com produtos inadequados.'',
            recommendations = ''Produtos hipoalerg'' @ [CHR 0xEA] @ ''nicos, sem fragr'' @ [CHR 0xE2]
               @ ''ncia, com ingredientes calmantes.''\<rparr>
         else if oily_score s \<ge> 3 then
           \<lparr>skin_type = ''Oleosa'',
            characteristics = ''Pele com produ'' @ [CHR 0xE7, CHR 0xE3]
               @ ''o aumentada de sebo, brilho excessivo, principalmente na zona T.'',
            recommendations = ''Produtos matificantes, limpeza profunda, hidrata''
               @ [CHR 0xE7, CHR 0xE3] @ ''o oil-free.''\<rparr>
         else if dry_score s \<ge> 2 then
           \<lparr>skin_type = ''Seca'',
            characteristics = ''Pele com baixa produ'' @ [CHR 0xE7, CHR 0xE3]
               @ ''o de oleosidade, pode ter sensa'' @ [CHR 0xE7, CHR 0xE3] @ ''o de repuxamento.'',
            recommendations = ''Hidrata'' @ [CHR 0xE7, CHR 0xE3]
               @ ''o intensa, produtos nutritivos, evitar limpeza agressiva.''\<rparr>
         else if oily_score s \<ge> 1 \<and> dry_score s \<ge> 1 then
           \<lparr>skin_type = ''Mista'',
            characteristics = ''Oleosidade na zona T (testa, nariz, queixo) e ressecamento nas bochechas.'',
            recommendations = ''Tratamento espec'' @ [CHR 0xED] @ ''fico por zona, equil''
               @ [CHR 0xED] @ ''brio da oleosidade.''\<rparr>
         else
           \<lparr>skin_type = ''Normal'',
            characteristics = ''Pele equilibrada, sem excesso de oleosidade ou ressecamento.'',
            recommendations = ''Manuten'' @ [CHR 0xE7, CHR 0xE3] @ ''o com produtos suaves, hidrata''
               @ [CHR 0xE7, CHR 0xE3] @ ''o regular, prote'' @ [CHR 0xE7, CHR 0xE3] @ ''o solar.''\<rparr>)"

text \<open>An answer that raises the acne score: acne keyword in the question, "sim" in the answer.\<close>

definition acne_hit :: "quiz_answer \<Rightarrow> bool" where
  "acne_hit ans = (contains (lower (question ans)) ''acne'' \<and> contains (lower (answer ans)) ''sim'')"

section \<open>Documents, collections and the store\<close>

text \<open>
  The MongoDB collections are lists of documents in insertion order. \<open>find_one\<close> returns the
  first document that matches, \<open>update_one\<close> changes the first document that matches (and
  nothing when none does), \<open>insert_one\<close> appends. The store itself never fails in the model.
\<close>

record user_doc =
  u_id :: string
  full_name :: string
  email :: "string option"
  phone :: "string option"
  is_premium :: bool
  is_subscriber :: bool
  premium_activated_at :: "datetime option"
  subscription_started_at :: "datetime option"
  trial_ends_at :: "datetime option"
  premium_code :: "string option"
  premium_code_expires_at :: "datetime option"
  u_created_at :: datetime
  last_payment_id :: "string option"
  last_payment_status :: "string option"
  last_payment_amount :: "int option"

record premium_code_doc =
  code :: string
  c_created_at :: datetime
  used :: bool
  used_by :: "string option"
  used_at :: "datetime option"

record checklist_item =
  task :: string
  completed :: bool

record daily_entry_doc =
  e_id :: string
  e_user_id :: string
  date :: datetime
  face_photo_base64 :: "string option"
  face_analysis :: "string option"
  products_photos :: "string list"
  products_analysis :: "string list"
  checklist :: "checklist_item list"
  observations :: string
  e_created_at :: datetime
  updated_at :: datetime

record webhook_request =
  wr_type :: "string option"
  wr_action :: "string option"
  wr_data_id :: "string option"

record payment_notification =
  n_type :: "string option"
  n_action :: "string option"
  n_data :: webhook_request
  n_created_at :: datetime

datatype log_level = INFO | WARNING | ERROR

record db =
  users :: "user_doc list"
  premium_codes :: "premium_code_doc list"
  daily_entries :: "daily_entry_doc list"
  payment_notifications :: "payment_notification list"
  logs :: "(log_level \<times> string) list"

datatype http_error = HTTPException int string

definition find_one :: "('a \<Rightarrow> bool) \<Rightarrow> 'a list \<Rightarrow> 'a option" where
  "find_one P xs = List.find P xs"

fun update_one :: "('a \<Rightarrow> bool) \<Rightarrow> ('a \<Rightarrow> 'a) \<Rightarrow> 'a list \<Rightarrow> 'a list" where
  "update_one P f [] = []"
| "update_one P f (x # xs) = (if P x then f x # xs else x # update_one P f xs)"

definition insert_one :: "'a \<Rightarrow> 'a list \<Rightarrow> 'a list" where
  "insert_one x xs = xs @ [x]"

definition log_msg :: "log_level \<Rightarrow> string \<Rightarrow> db \<Rightarrow> db" where
  "log_msg lvl msg st = st\<lparr>logs := logs st @ [(lvl, msg)]\<rparr>"

text \<open>\<open>d.get(key, "")\<close> on a request body: a missing key gives the empty string.\<close>

definition get_str :: "string option \<Rightarrow> string" where
  "get_str v = (case v of None \<Rightarrow> [] | Some s \<Rightarrow> s)"

text \<open>\<open>User(...)\<close> with the defaults of the model class; id and creation time are drawn by
  the constructor (\<open>uuid4\<close>, \<open>utcnow\<close>) and are parameters here.\<close>

definition User :: "string \<Rightarrow> datetime \<Rightarrow> string \<Rightarrow> string \<Rightarrow> bool \<Rightarrow> datetime option
    \<Rightarrow> datetime option \<Rightarrow> user_doc" where
  "User new_id created name mail premium activated trial =
     \<lparr>u_id = new_id, full_name = name, email = Some mail, phone = None,
      is_premium = premium, is_subscriber = False,
      premium_activated_at = activated, subscription_started_at = None,
      trial_ends_at = trial, premium_code = None, premium_code_expires_at = None,
      u_created_at = created, last_payment_id = None, last_payment_status = None,
      last_payment_amount = None\<rparr>"

definition msg_usuario_nao_encontrado :: string where
  "msg_usuario_nao_encontrado = ''Usu'' @ [CHR 0xE1] @ ''rio n'' @ [CHR 0xE3] @ ''o encontrado''"


definition msg_codigo_nao_fornecido :: string where
  "msg_codigo_nao_fornecido = ''C'' @ [CHR 0xF3] @ ''digo n'' @ [CHR 0xE3] @ ''o fornecido''"

definition msg_codigo_invalido :: string where
  "msg_codigo_invalido =
     ''C'' @ [CHR 0xF3] @ ''digo inv'' @ [CHR 0xE1] @ ''lido. Este c'' @ [CHR 0xF3]
       @ ''digo n'' @ [CHR 0xE3] @ ''o existe no sistema.''"

definition msg_codigo_ja_utilizado :: string where
  "msg_codigo_ja_utilizado =
     ''C'' @ [CHR 0xF3] @ ''digo j'' @ [CHR 0xE1] @ '' foi utilizado por outro usu''
       @ [CHR 0xE1] @ ''rio.''"

definition msg_codigo_ativado :: string where
  "msg_codigo_ativado = ''C'' @ [CHR 0xF3] @ ''digo ativado com sucesso!''"

section \<open>Premium ledger\<close>

subsection \<open>\<open>activate_premium_auto\<close>\<close>




subsection \<open>\<open>activate_premium_code\<close>\<close>

record code_response =
  cd_message :: string
  cd_expires_at :: datetime
  cd_days_remaining :: int

definition activate_premium_code ::
    "db \<Rightarrow> string \<Rightarrow> string option \<Rightarrow> datetime \<Rightarrow> db \<times> (http_error + code_response)" where
  "activate_premium_code st user_id code_data now =
     (let cd = upper (strip (get_str code_data))
      in if cd = [] then (st, Inl (HTTPException 400 msg_codigo_nao_fornecido))
         else case find_one (\<lambda>u. u_id u = user_id) (users st) of
           None \<Rightarrow> (st, Inl (HTTPException 404 msg_usuario_nao_encontrado))
         | Some user \<Rightarrow>
             let st1 = log_msg INFO (''Verificando c'' @ [CHR 0xF3] @ ''digo: '' @ cd) st
             in case find_one (\<lambda>c. code c = cd) (premium_codes st1) of
                  None \<Rightarrow>
                    (log_msg WARNING (''C'' @ [CHR 0xF3] @ ''digo inv'' @ [CHR 0xE1] @ ''lido tentado: '' @ cd) st1,
                     Inl (HTTPException 400 msg_codigo_invalido))
                | Some premium_code_found \<Rightarrow>
                    if used premium_code_found then
                      (log_msg WARNING (''C'' @ [CHR 0xF3] @ ''digo j'' @ [CHR 0xE1] @ '' usado tentado: '' @ cd) st1,
                       Inl (HTTPException 400 msg_codigo_ja_utilizado))
                    else
                      let expires_at = now + timedelta_days 30;
                          st2 = st1\<lparr>users := update_one (\<lambda>u. u_id u = user_id)
                                   (\<lambda>u. u\<lparr>is_premium := True,
                                           premium_activated_at := Some now,
                                           trial_ends_at := Some expires_at,
                                           premium_code := Some cd,
                                           premium_code_expires_at := Some expires_at\<rparr>) (users st1)\<rparr>;
                          st3 = st2\<lparr>premium_codes := update_one (\<lambda>c. code c = cd)
                                   (\<lambda>c. c\<lparr>used := True, used_by := Some user_id, used_at := Some now\<rparr>)
                                   (premium_codes st2)\<rparr>;
                          st4 = log_msg INFO (''C'' @ [CHR 0xF3] @ ''digo '' @ cd @ '' ativado para usu''
                                   @ [CHR 0xE1] @ ''rio '' @ user_id @ ''. Expira em 30 dias.'') st3
                      in (st4, Inr \<lparr>cd_message = msg_codigo_ativado, cd_expires_at = expires_at,
                                    cd_days_remaining = 30\<rparr>))"

subsection \<open>\<open>check_premium_status\<close>\<close>

record premium_status =
  ps_is_premium :: bool
  ps_status :: string
  ps_message :: "string option"
  ps_expires_at :: "datetime option"
  ps_expired_at :: "datetime option"
  ps_days_remaining :: "int option"

text \<open>\<open>user.get("premium_code_expires_at") or user.get("trial_ends_at")\<close>: a datetime is
  always true, so the first one that is set wins.\<close>

definition effective_expiry :: "user_doc \<Rightarrow> datetime option" where
  "effective_expiry user =
     (case premium_code_expires_at user of Some t \<Rightarrow> Some t | None \<Rightarrow> trial_ends_at user)"

definition no_premium_response :: premium_status where
  "no_premium_response =
     \<lparr>ps_is_premium = False, ps_status = ''no_premium'',
      ps_message = Some (''Voc'' @ [CHR 0xEA] @ '' precisa de acesso premium para usar esta ''
                         @ [CHR 0xE1] @ ''rea.''),
      ps_expires_at = None, ps_expired_at = None, ps_days_remaining = None\<rparr>"

definition check_premium_status ::
    "db \<Rightarrow> string \<Rightarrow> datetime \<Rightarrow> db \<times> (http_error + premium_status)" where
  "check_premium_status st user_id now =
     (case find_one (\<lambda>u. u_id u = user_id) (users st) of
        None \<Rightarrow> (st, Inl (HTTPException 404 msg_usuario_nao_encontrado))
      | Some user \<Rightarrow>
          (case effective_expiry user of
             None \<Rightarrow> (st, Inr no_premium_response)
           | Some expires_dt \<Rightarrow>
               if is_premium user then
                 (if now > expires_dt then
                    (st\<lparr>users := update_one (\<lambda>u. u_id u = user_id)
                                   (\<lambda>u. u\<lparr>is_premium := False\<rparr>) (users st)\<rparr>,
                     Inr \<lparr>ps_is_premium = False, ps_status = ''expired'',
                          ps_message = Some ''Seu acesso premium expirou. Renove sua assinatura!'',
                          ps_expires_at = None, ps_expired_at = Some expires_dt,
                          ps_days_remaining = None\<rparr>)
                  else
                    (st, Inr \<lparr>ps_is_premium = True, ps_status = ''active'',
                              ps_message = None, ps_expires_at = Some expires_dt,
                              ps_expired_at = None,
                              ps_days_remaining = Some (days_of (expires_dt - now))\<rparr>))
               else (st, Inr no_premium_response)))"

subsection \<open>\<open>activate_subscription\<close>\<close>

definition activate_subscription :: "db \<Rightarrow> string \<Rightarrow> datetime \<Rightarrow> db \<times> (http_error + string)" where
  "activate_subscription st user_id now =
     (st\<lparr>users := update_one (\<lambda>u. u_id u = user_id)
                    (\<lambda>u. u\<lparr>is_subscriber := True, subscription_started_at := Some now\<rparr>)
                    (users st)\<rparr>,
      Inr ''Assinatura ativada com sucesso'')"

section \<open>Payment webhook: \<open>mercadopago_webhook\<close>\<close>

text \<open>
  The payment gateway is an external collaborator: \<open>sdk\<close> gives, for a payment id, either
  the text of the exception that the lookup (or the import of the SDK) raised, or the
  \<open>response\<close> part of the payment. \<open>access_token\<close> is the environment variable. The
  handler reads the clock three times: for the notification record (\<open>t_log\<close>), for
  \<open>premium_activated_at\<close> (\<open>t_act\<close>) and for \<open>trial_ends_at\<close> (\<open>t_exp\<close>).
  The first log line prints the whole request in the source and is cut to its fixed text;
  the amount of the payment is copied as it is and modelled as an integer.
\<close>

record payment_data =
  pd_status :: "string option"
  pd_user_email :: "string option"
  pd_external_reference :: "string option"
  pd_transaction_amount :: "int option"

record webhook_response =
  message :: string
  error :: "string option"

definition payment_event :: "webhook_request \<Rightarrow> bool" where
  "payment_event request =
     (wr_type request = Some ''payment''
      \<or> wr_action request = Some ''payment.created''
      \<or> wr_action request = Some ''payment.updated'')"

definition msg_usuario :: string where
  "msg_usuario = ''Usu'' @ [CHR 0xE1] @ ''rio ''"

definition msg_nao_encontrado_no_banco :: string where
  "msg_nao_encontrado_no_banco = '' n'' @ [CHR 0xE3] @ ''o encontrado no banco''"

definition mercadopago_webhook ::
    "db \<Rightarrow> webhook_request \<Rightarrow> string option \<Rightarrow> (string \<Rightarrow> string + payment_data)
       \<Rightarrow> datetime \<Rightarrow> datetime \<Rightarrow> datetime \<Rightarrow> db \<times> webhook_response" where
  "mercadopago_webhook st request access_token sdk t_log t_act t_exp =
     (let st1 = log_msg INFO ''Webhook MercadoPago recebido'' st;
          st2 = st1\<lparr>payment_notifications := insert_one
                   \<lparr>n_type = wr_type request, n_action = wr_action request,
                    n_data = request, n_created_at = t_log\<rparr> (payment_notifications st1)\<rparr>
      in if payment_event request \<and> truthy (wr_data_id request) then
           (let payment_id = get_str (wr_data_id request)
            in if \<not> truthy access_token then
                 (log_msg WARNING (''MERCADO_PAGO_ACCESS_TOKEN n'' @ [CHR 0xE3] @ ''o configurado'') st2,
                  \<lparr>message = ''Webhook recebido, mas sem token configurado'', error = None\<rparr>)
               else case sdk payment_id of
                 Inl e \<Rightarrow>
                   (log_msg ERROR (''Erro no webhook: '' @ e) st2,
                    \<lparr>message = ''Erro processado'', error = Some e\<rparr>)
               | Inr payment \<Rightarrow>
                   if pd_status payment = Some ''approved'' then
                     (let user_email = py_or (pd_user_email payment) (pd_external_reference payment)
                      in if truthy user_email then
                           (case find_one (\<lambda>u. email u = user_email) (users st2) of
                              Some user \<Rightarrow>
                                (log_msg INFO (msg_usuario @ get_str user_email
                                                @ '' ativado como premium via webhook'')
                                   (st2\<lparr>users := update_one (\<lambda>u. email u = user_email)
                                      (\<lambda>u. u\<lparr>is_premium := True,
                                              premium_activated_at := Some t_act,
                                              trial_ends_at := Some (t_exp + timedelta_days 7),
                                              last_payment_id := Some payment_id,
                                              last_payment_status := Some ''approved'',
                                              last_payment_amount := pd_transaction_amount payment\<rparr>)
                                      (users st2)\<rparr>),
                                 \<lparr>message = ''Pagamento aprovado e usu'' @ [CHR 0xE1] @ ''rio ativado'',
                                  error = None\<rparr>)
                            | None \<Rightarrow>
                                (log_msg WARNING (msg_usuario @ get_str user_email
                                                   @ msg_nao_encontrado_no_banco) st2,
                                 \<lparr>message = msg_usuario_nao_encontrado, error = None\<rparr>))
                         else
                           (log_msg WARNING (''Email do usu'' @ [CHR 0xE1] @ ''rio n'' @ [CHR 0xE3]
                                              @ ''o encontrado no pagamento'') st2,
                            \<lparr>message = ''Email n'' @ [CHR 0xE3] @ ''o identificado'', error = None\<rparr>))
                   else
                     (let shown = (case pd_status payment of None \<Rightarrow> ''None'' | Some x \<Rightarrow> x)
                      in (log_msg INFO (''Pagamento '' @ payment_id @ '' com status: '' @ shown) st2,
                          \<lparr>message = ''Pagamento com status: '' @ shown, error = None\<rparr>)))
         else (st2, \<lparr>message = ''Evento recebido'', error = None\<rparr>))"

text \<open>
  The situation the payment-approved path is about: a payment event with an id, a
  configured token, and a payment that the gateway reports as approved for the e-mail
  address \<open>mail\<close>.
\<close>

definition approved_for ::
    "webhook_request \<Rightarrow> string option \<Rightarrow> (string \<Rightarrow> string + payment_data) \<Rightarrow> string \<Rightarrow> bool" where
  "approved_for request access_token sdk mail =
     (payment_event request \<and> truthy (wr_data_id request) \<and> truthy access_token \<and> mail \<noteq> []
      \<and> (case sdk (get_str (wr_data_id request)) of
            Inl e \<Rightarrow> False
          | Inr payment \<Rightarrow>
              pd_status payment = Some ''approved''
              \<and> py_or (pd_user_email payment) (pd_external_reference payment) = Some mail))"

section \<open>Daily entry store\<close>

subsection \<open>\<open>create_daily_entry\<close>\<close>

definition default_checklist :: "checklist_item list" where
  "default_checklist =
     [\<lparr>task = ''Lavei o rosto'', completed = False\<rparr>,
      \<lparr>task = ''Usei tratamento adequado'', completed = False\<rparr>,
      \<lparr>task = ''Usei hidratante'', completed = False\<rparr>,
      \<lparr>task = ''Usei protetor solar'', completed = False\<rparr>,
      \<lparr>task = ''Bebi '' @ [CHR 0xE1] @ ''gua'', completed = False\<rparr>]"

text \<open>\<open>DailyEntry(user_id=..., date=..., checklist=...)\<close> with the defaults of the model
  class: no photos, no analyses, empty observations.\<close>

definition DailyEntry :: "string \<Rightarrow> datetime \<Rightarrow> string \<Rightarrow> datetime \<Rightarrow> checklist_item list
    \<Rightarrow> daily_entry_doc" where
  "DailyEntry new_id created uid d items =
     \<lparr>e_id = new_id, e_user_id = uid, date = d, face_photo_base64 = None,
      face_analysis = None, products_photos = [], products_analysis = [],
      checklist = items, observations = [], e_created_at = created, updated_at = created\<rparr>"

definition create_daily_entry ::
    "db \<Rightarrow> string \<Rightarrow> datetime option \<Rightarrow> datetime \<Rightarrow> string \<Rightarrow> datetime \<Rightarrow> db \<times> daily_entry_doc" where
  "create_daily_entry st uid entry_date now new_id created =
     (let date_start = midnight (case entry_date of Some d \<Rightarrow> d | None \<Rightarrow> now);
          date_end = date_start + timedelta_days 1
      in case find_one (\<lambda>e. e_user_id e = uid \<and> date_start \<le> date e \<and> date e < date_end)
                (daily_entries st) of
           Some existing \<Rightarrow> (st, existing)
         | None \<Rightarrow>
             (let new_entry = DailyEntry new_id created uid date_start default_checklist
              in (st\<lparr>daily_entries := insert_one new_entry (daily_entries st)\<rparr>, new_entry)))"

subsection \<open>\<open>analyze_product_in_entry\<close>\<close>

text \<open>
  The AI analyzer is an external collaborator: \<open>ai\<close> is what the call gives for the image,
  either the text of the exception it raised or the analysis text.
\<close>

definition analyze_product_in_entry ::
    "db \<Rightarrow> string \<Rightarrow> string \<Rightarrow> string + string \<Rightarrow> datetime \<Rightarrow> db \<times> (http_error + string)" where
  "analyze_product_in_entry st entry_id image_base64 ai now =
     (case find_one (\<lambda>e. e_id e = entry_id) (daily_entries st) of
        None \<Rightarrow> (st, Inl (HTTPException 404 (''Entrada n'' @ [CHR 0xE3] @ ''o encontrada'')))
      | Some entry \<Rightarrow>
          (case ai of
             Inl e \<Rightarrow> (log_msg ERROR (''Erro ao analisar produto: '' @ e) st, Inl (HTTPException 500 e))
           | Inr analysis \<Rightarrow>
               (let photos = products_photos entry @ [image_base64];
                    analyses = products_analysis entry @ [analysis]
                in (st\<lparr>daily_entries := update_one (\<lambda>e. e_id e = entry_id)
                         (\<lambda>e. e\<lparr>products_photos := photos, products_analysis := analyses,
                                 updated_at := now\<rparr>) (daily_entries st)\<rparr>,
                    Inr analysis))))"

section \<open>Calendar gate: \<open>get_calendar_status\<close>\<close>

record entry_flags =
  has_photo :: bool
  has_checklist :: bool
  is_complete :: bool

record day_status =
  status :: string
  entryExists :: bool
  isComplete :: bool
  hasPhoto :: bool
  hasChecklist :: bool

record calendar_response =
  cr_user_id :: string
  cr_is_subscriber :: bool
  cr_trial_ends_at :: "datetime option"
  calendar_status :: "int \<rightharpoonup> day_status"

text \<open>The loop that builds \<open>entries_dict\<close>, keyed by the day of each entry.\<close>

fun entries_loop :: "(int \<rightharpoonup> entry_flags) \<Rightarrow> daily_entry_doc list \<Rightarrow> (int \<rightharpoonup> entry_flags)" where
  "entries_loop m [] = m"
| "entries_loop m (entry # rest) =
     entries_loop
       (m(date_key (date entry) \<mapsto>
           \<lparr>has_photo = truthy (face_photo_base64 entry),
            has_checklist = list_ex completed (checklist entry),
            is_complete = (truthy (face_photo_base64 entry) \<and> list_ex completed (checklist entry))\<rparr>))
       rest"

text \<open>The body of the loop over the days of an activated user, for the offset \<open>i\<close>.\<close>

definition day_decision :: "bool \<Rightarrow> datetime option \<Rightarrow> datetime \<Rightarrow> datetime \<Rightarrow> string" where
  "day_decision subscriber trial activation_date check_date =
     (if subscriber then ''liberado''
      else case trial of
        Some t \<Rightarrow>
          (let trial_end = midnight t
           in if check_date \<le> trial_end \<and> check_date \<ge> activation_date
              then ''liberado'' else ''bloqueado'')
      | None \<Rightarrow>
          (if check_date \<ge> activation_date \<and> check_date < activation_date + timedelta_days 7
           then ''liberado'' else ''bloqueado''))"

definition day_body ::
    "bool \<Rightarrow> datetime option \<Rightarrow> datetime \<Rightarrow> datetime \<Rightarrow> (int \<rightharpoonup> entry_flags) \<Rightarrow> int
       \<Rightarrow> int \<times> day_status" where
  "day_body subscriber trial activation_date today entries_dict i =
     (let check_date = today + timedelta_days i;
          date_str = date_key check_date;
          st = day_decision subscriber trial activation_date check_date
      in (date_str,
          case entries_dict date_str of
            Some entry_data \<Rightarrow>
              \<lparr>status = st, entryExists = True, isComplete = is_complete entry_data,
               hasPhoto = has_photo entry_data, hasChecklist = has_checklist entry_data\<rparr>
          | None \<Rightarrow>
              \<lparr>status = st, entryExists = False, isComplete = False,
               hasPhoto = False, hasChecklist = False\<rparr>))"

text \<open>The body of the loop for a user whose premium was never activated.\<close>

definition blocked_body :: "datetime \<Rightarrow> int \<Rightarrow> int \<times> day_status" where
  "blocked_body today i =
     (date_key (today + timedelta_days i),
      \<lparr>status = ''bloqueado'', entryExists = False, isComplete = False,
       hasPhoto = False, hasChecklist = False\<rparr>)"

text \<open>\<open>for i in ...: calendar_status[date_str] = ...\<close>\<close>

fun days_loop :: "(int \<Rightarrow> int \<times> day_status) \<Rightarrow> (int \<rightharpoonup> day_status) \<Rightarrow> int list
    \<Rightarrow> (int \<rightharpoonup> day_status)" where
  "days_loop body m [] = m"
| "days_loop body m (i # rest) = days_loop body (m(fst (body i) \<mapsto> snd (body i))) rest"

definition get_calendar_status :: "db \<Rightarrow> string \<Rightarrow> datetime \<Rightarrow> http_error + calendar_response" where
  "get_calendar_status st user_id now =
     (case find_one (\<lambda>u. u_id u = user_id) (users st) of
        None \<Rightarrow> Inl (HTTPException 404 msg_usuario_nao_encontrado)
      | Some user \<Rightarrow>
          (let today = midnight now;
               cal =
                 (case premium_activated_at user of
                    Some activated \<Rightarrow>
                      (let activation_date = midnight activated;
                           days_to_check = 60;
                           entries = take 200 (filter (\<lambda>e. e_user_id e = user_id) (daily_entries st));
                           entries_dict = entries_loop Map.empty entries
                       in days_loop
                            (day_body (is_subscriber user) (trial_ends_at user) activation_date
                               today entries_dict)
                            Map.empty (py_range (-30) days_to_check))
                  | None \<Rightarrow> days_loop (blocked_body today) Map.empty (py_range (-30) 30))
           in Inr \<lparr>cr_user_id = user_id, cr_is_subscriber = is_subscriber user,
                   cr_trial_ends_at = trial_ends_at user, calendar_status = cal\<rparr>))"

text \<open>What the gate reports for the calendar day number \<open>d\<close>: nothing when the day is not in
  the response (or the user does not exist), otherwise the status string of that day.\<close>

definition reported :: "db \<Rightarrow> string \<Rightarrow> datetime \<Rightarrow> int \<Rightarrow> string option" where
  "reported st user_id now d =
     (case get_calendar_status st user_id now of
        Inl e \<Rightarrow> None
      | Inr r \<Rightarrow> map_option status (calendar_status r d))"

section \<open>Example data\<close>

definition quiz_example :: "quiz_answer list" where
  "quiz_example =
     [\<lparr>question = ''Voce tem ACNE?'', answer = ''Sim''\<rparr>,
      \<lparr>question = ''Sua pele brilha?'', answer = ''sim''\<rparr>,
      \<lparr>question = ''Tem oleosidade?'', answer = ''sim''\<rparr>,
      \<lparr>question = ''Sente ressecamento?'', answer = ''sim''\<rparr>,
      \<lparr>question = ''Sente ard'' @ [CHR 0xCA] @ ''ncia?'', answer = ''SIM, muito''\<rparr>,
      \<lparr>question = ''Tem manchas?'', answer = ''sim''\<rparr>]"

text \<open>
  Five users: \<open>u1\<close> activated premium on day 100 and has no trial expiry, \<open>u2\<close> is a
  subscriber whose premium was never activated, \<open>u3\<close> holds a code that expires on
  day 130 and a trial expiry on day 150, \<open>u4\<close> is a subscriber whose premium was
  activated on day 100, \<open>u7\<close> has no code and a trial expiry on day 140.
\<close>

definition user_u1 :: user_doc where
  "user_u1 = (User ''u1'' 0 ''Ana'' ''a@x.com'' True (Some (timedelta_days 100 + 3600)) None)"

definition user_u2 :: user_doc where
  "user_u2 = (User ''u2'' 0 ''Bia'' ''b@x.com'' False None None)\<lparr>is_subscriber := True\<rparr>"

definition user_u3 :: user_doc where
  "user_u3 = (User ''u3'' 0 ''Carla'' ''c@x.com'' True (Some (timedelta_days 100))
                (Some (timedelta_days 150)))
               \<lparr>premium_code := Some ''BELUXAB12CD34'',
                premium_code_expires_at := Some (timedelta_days 130)\<rparr>"

definition user_u4 :: user_doc where
  "user_u4 = (User ''u4'' 0 ''Dora'' ''d@x.com'' True (Some (timedelta_days 100)) None)
               \<lparr>is_subscriber := True, subscription_started_at := Some (timedelta_days 100)\<rparr>"

definition user_u7 :: user_doc where
  "user_u7 = (User ''u7'' 0 ''Elis'' ''e@x.com'' True (Some (timedelta_days 110))
                (Some (timedelta_days 140)))"

definition payment_request :: webhook_request where
  "payment_request = \<lparr>wr_type = Some ''payment'', wr_action = None, wr_data_id = Some ''77''\<rparr>"

text \<open>A gateway that reports every payment as approved for the given e-mail address.\<close>

definition approving_sdk :: "string \<Rightarrow> string \<Rightarrow> string + payment_data" where
  "approving_sdk mail payment_id =
     Inr \<lparr>pd_status = Some ''approved'', pd_user_email = Some mail,
          pd_external_reference = None, pd_transaction_amount = Some 2990\<rparr>"


definition entry_e1 :: daily_entry_doc where
  "entry_e1 = (DailyEntry ''e1'' 0 ''u1'' (timedelta_days 100) default_checklist)
                \<lparr>products_photos := [''photo1''], products_analysis := [''analysis1'']\<rparr>"

definition code_used :: premium_code_doc where
  "code_used = \<lparr>code = ''BELUXAB12CD34'', c_created_at = 0, used = True,
                 used_by = Some ''u3'', used_at = Some (timedelta_days 100)\<rparr>"

definition code_fresh :: premium_code_doc where
  "code_fresh = \<lparr>code = ''BELUX0000FFFF'', c_created_at = 0, used = False,
                  used_by = None, used_at = None\<rparr>"

definition example_db :: db where
  "example_db =
     \<lparr>users = [user_u1, user_u2, user_u3, user_u4, user_u7],
      premium_codes = [code_used, code_fresh],
      daily_entries = [entry_e1],
      payment_notifications = [],
      logs = []\<rparr>"

section \<open>Properties of the quiz scorer\<close>

lemma acne_score_when_other [simp]:
  "acne_score (when c (add_oily n) s) = acne_score s"
  "acne_score (when c (add_dry n) s) = acne_score s"
  "acne_score (when c (add_sensitive n) s) = acne_score s"
  "acne_score (when c (when d (add_sensitive n)) s) = acne_score s"
  by (simp_all add: when_def add_oily_def add_dry_def add_sensitive_def)

lemma acne_score_when_acne [simp]:
  "acne_score (when c (add_acne n) s) = acne_score s + (if c then n else 0)"
  by (simp add: when_def add_acne_def)

lemma acne_score_answer:
  "acne_score (score_answer s ans) = acne_score s + (if acne_hit ans then 2 else 0)"
  by (simp add: score_answer_def acne_hit_def Let_def)

lemma acne_score_loop:
  "acne_score (score_loop s answers) = acne_score s + 2 * int (length (filter acne_hit answers))"
  by (induction answers arbitrary: s) (simp_all add: acne_score_answer)

lemma acne_score_count:
  "acne_score (quiz_scores answers) = 2 * int (length (filter acne_hit answers))"
  by (simp add: quiz_scores_def acne_score_loop)

text \<open>
  C9. Whenever the accumulated acne score is at least 2, \<open>analyze_quiz\<close> returns the skin type
  "Acneica" with its fixed texts, whatever the oily, dry and sensitive scores are: the acne
  test comes first in the priority chain. Since every answer with an acne keyword and an
  affirmative reply adds 2, two such answers (indeed one) are enough.
\<close>

theorem analyze_quiz_acne_first:
  assumes "2 \<le> acne_score (quiz_scores answers) \<or> 2 \<le> length (filter acne_hit answers)"
  shows "skin_type (analyze_quiz answers) = ''Acneica''"
proof -
  have "2 \<le> acne_score (quiz_scores answers)"
    using assms by (auto simp: acne_score_count)
  then show ?thesis
    unfolding analyze_quiz_def Let_def
    by (simp only: if_P quiz_analysis.select_convs)
qed

theorem analyze_quiz_acne_first_witness:
  "(2 \<le> acne_score (quiz_scores quiz_example) \<or> 2 \<le> length (filter acne_hit quiz_example))
   \<and> oily_score (quiz_scores quiz_example) = 4
   \<and> dry_score (quiz_scores quiz_example) = 2
   \<and> sensitive_score (quiz_scores quiz_example) = 3
   \<and> skin_type (analyze_quiz quiz_example) = ''Acneica''"
proof -
  have sc: "quiz_scores quiz_example
            = \<lparr>oily_score = 4, dry_score = 2, acne_score = 2, sensitive_score = 3\<rparr>"
    by code_simp
  then have h: "2 \<le> acne_score (quiz_scores quiz_example)
                \<or> 2 \<le> length (filter acne_hit quiz_example)"
    by simp
  show ?thesis using h analyze_quiz_acne_first [OF h] by (simp add: sc)
qed

section \<open>Properties of the store operations\<close>

lemma find_one_None_iff: "find_one P xs = None \<longleftrightarrow> (\<forall>x\<in>set xs. \<not> P x)"
  by (auto simp: find_one_def find_None_iff)

lemma find_one_Some_holds: "find_one P xs = Some x \<Longrightarrow> P x \<and> x \<in> set xs"
  by (auto simp: find_one_def find_Some_iff)

lemma update_one_no_match: "find_one P xs = None \<Longrightarrow> update_one P f xs = xs"
  by (induction xs) (auto simp: find_one_def split: if_splits)

lemma length_update_one [simp]: "length (update_one P f xs) = length xs"
  by (induction xs) auto

lemma find_one_update_one:
  "find_one P xs = Some x \<Longrightarrow> P (f x) \<Longrightarrow> find_one P (update_one P f xs) = Some (f x)"
  by (induction xs) (auto simp: find_one_def split: if_splits)




section \<open>Properties of the premium ledger\<close>

lemma day_us_pos: "0 < day_us"
  by (simp add: day_us_def)

lemma days_of_bounds:
  assumes "0 \<le> d"
  shows "0 \<le> days_of d \<and> days_of d * day_us \<le> d \<and> d < (days_of d + 1) * day_us"
proof -
  have e: "d div day_us * day_us + d mod day_us = d" by (rule div_mult_mod_eq)
  have m: "0 \<le> d mod day_us" "d mod day_us < day_us" using day_us_pos by simp_all
  have s: "(d div day_us + 1) * day_us = d div day_us * day_us + day_us"
    by (simp add: algebra_simps)
  have "0 \<le> d div day_us" using assms day_us_pos by (simp add: pos_imp_zdiv_nonneg_iff)
  then show ?thesis unfolding days_of_def using e m s by linarith
qed

text \<open>
  C4. For an existing user with \<open>is_premium\<close> set whose expiry \<open>expires\<close> is the value
  of \<open>premium_code_expires_at\<close> when that field is set, and the value of \<open>trial_ends_at\<close>
  when \<open>premium_code_expires_at\<close> is unset: when \<open>now\<close> is past the
  expiry, \<open>check_premium_status\<close> answers "expired" and the stored user is no longer
  premium afterwards; otherwise it answers "active", leaves the store unchanged, and
  \<open>days_remaining\<close> is the number \<open>n\<close> of whole days in the remaining duration
  (\<open>n\<close> days \<open>\<le>\<close> remaining \<open><\<close> \<open>n + 1\<close> days).
\<close>

theorem check_premium_status_expiry:
  assumes found: "find_one (\<lambda>u. u_id u = user_id) (users st) = Some user"
    and prem: "is_premium user"
    and raw: "premium_code_expires_at user = Some expires
              \<or> (premium_code_expires_at user = None \<and> trial_ends_at user = Some expires)"
  shows "(now > expires \<longrightarrow>
            (\<exists>st' r u'. check_premium_status st user_id now = (st', Inr r)
               \<and> ps_status r = ''expired'' \<and> \<not> ps_is_premium r
               \<and> find_one (\<lambda>u. u_id u = user_id) (users st') = Some u' \<and> \<not> is_premium u'))
       \<and> (\<not> now > expires \<longrightarrow>
            (\<exists>r n. check_premium_status st user_id now = (st, Inr r)
               \<and> ps_status r = ''active'' \<and> ps_is_premium r
               \<and> ps_days_remaining r = Some n \<and> 0 \<le> n
               \<and> n * day_us \<le> expires - now \<and> expires - now < (n + 1) * day_us))"
proof (intro conjI impI)
  have exp: "effective_expiry user = Some expires"
    using raw by (auto simp: effective_expiry_def)
  assume late: "now > expires"
  have uid: "u_id user = user_id" using find_one_Some_holds[OF found] by simp
  have "find_one (\<lambda>u. u_id u = user_id)
          (update_one (\<lambda>u. u_id u = user_id) (\<lambda>u. u\<lparr>is_premium := False\<rparr>) (users st))
        = Some (user\<lparr>is_premium := False\<rparr>)"
    by (rule find_one_update_one[OF found]) (simp add: uid)
  then show "\<exists>st' r u'. check_premium_status st user_id now = (st', Inr r)
               \<and> ps_status r = ''expired'' \<and> \<not> ps_is_premium r
               \<and> find_one (\<lambda>u. u_id u = user_id) (users st') = Some u' \<and> \<not> is_premium u'"
    using found prem exp late by (simp add: check_premium_status_def)
next
  have exp: "effective_expiry user = Some expires"
    using raw by (auto simp: effective_expiry_def)
  assume nl: "\<not> now > expires"
  then have "0 \<le> expires - now" by simp
  from days_of_bounds[OF this]
  show "\<exists>r n. check_premium_status st user_id now = (st, Inr r)
               \<and> ps_status r = ''active'' \<and> ps_is_premium r
               \<and> ps_days_remaining r = Some n \<and> 0 \<le> n
               \<and> n * day_us \<le> expires - now \<and> expires - now < (n + 1) * day_us"
    using found prem exp nl by (simp add: check_premium_status_def)
qed

text \<open>
  C10. When no user has the given id, \<open>activate_subscription\<close> changes nothing in the store
  (no record is created or modified) and still answers with the success message.
\<close>

theorem activate_subscription_unknown_user:
  assumes "find_one (\<lambda>u. u_id u = user_id) (users st) = None"
  shows "activate_subscription st user_id now = (st, Inr ''Assinatura ativada com sucesso'')"
  using assms by (simp add: activate_subscription_def update_one_no_match)

lemma log_msg_fields [simp]:
  "users (log_msg lvl msg st) = users st"
  "premium_codes (log_msg lvl msg st) = premium_codes st"
  "daily_entries (log_msg lvl msg st) = daily_entries st"
  "payment_notifications (log_msg lvl msg st) = payment_notifications st"
  "logs (log_msg lvl msg st) = logs st @ [(lvl, msg)]"
  by (simp_all add: log_msg_def)
lemma activate_premium_code_used:
  assumes user: "find_one (\<lambda>u. u_id u = user_id) (users st) = Some user"
    and cd: "find_one (\<lambda>c. code c = upper (strip (get_str code_data))) (premium_codes st) = Some c"
    and used: "used c"
  shows "\<exists>st' detail.
           activate_premium_code st user_id code_data now = (st', Inl (HTTPException 400 detail))
           \<and> users st' = users st \<and> premium_codes st' = premium_codes st
           \<and> (upper (strip (get_str code_data)) \<noteq> [] \<longrightarrow> detail = msg_codigo_ja_utilizado)"
  using assms by (simp add: activate_premium_code_def Let_def)

lemma activate_premium_code_marks_used:
  assumes ok: "activate_premium_code st user_id code_data now = (st1, Inr r)"
  shows "upper (strip (get_str code_data)) \<noteq> []
         \<and> (\<exists>c. find_one (\<lambda>c. code c = upper (strip (get_str code_data))) (premium_codes st1) = Some c
                \<and> used c \<and> used_by c = Some user_id \<and> used_at c = Some now)"
proof -
  let ?cd = "upper (strip (get_str code_data))"
  from ok have ne: "?cd \<noteq> []"
    by (auto simp: activate_premium_code_def Let_def split: if_splits)
  from ok ne obtain user where u: "find_one (\<lambda>u. u_id u = user_id) (users st) = Some user"
    by (auto simp: activate_premium_code_def Let_def split: option.splits)
  from ok ne u obtain c where c: "find_one (\<lambda>c. code c = ?cd) (premium_codes st) = Some c"
    by (auto simp: activate_premium_code_def Let_def split: option.splits)
  have cc: "code c = ?cd" using find_one_Some_holds[OF c] by simp
  from ok ne u c have nu: "\<not> used c"
    by (auto simp: activate_premium_code_def Let_def split: if_splits)
  have st1: "premium_codes st1 = update_one (\<lambda>c. code c = ?cd)
               (\<lambda>c. c\<lparr>used := True, used_by := Some user_id, used_at := Some now\<rparr>) (premium_codes st)"
    using ok ne u c nu by (auto simp: activate_premium_code_def Let_def)
  have "find_one (\<lambda>c. code c = ?cd) (premium_codes st1)
        = Some (c\<lparr>used := True, used_by := Some user_id, used_at := Some now\<rparr>)"
    unfolding st1 by (rule find_one_update_one[OF c]) (simp add: cc)
  then show ?thesis using ne by simp
qed
text \<open>
  C5. A redemption that names an existing user and an existing code whose \<open>used\<close> flag is
  set fails with status 400 and leaves the users and the premium codes as they were (with
  the detail "already used" whenever the normalised code is not empty). In particular,
  after a successful redemption of a code, any later redemption of the same code by an
  existing user is rejected with 400 "already used" and changes neither collection.
\<close>

theorem activate_premium_code_used_rejected:
  "(find_one (\<lambda>u. u_id u = user_id) (users st) = Some user
     \<and> find_one (\<lambda>c. code c = upper (strip (get_str code_data))) (premium_codes st) = Some c
     \<and> used c
    \<longrightarrow> (\<exists>st' detail.
           activate_premium_code st user_id code_data now = (st', Inl (HTTPException 400 detail))
           \<and> users st' = users st \<and> premium_codes st' = premium_codes st
           \<and> (upper (strip (get_str code_data)) \<noteq> [] \<longrightarrow> detail = msg_codigo_ja_utilizado)))
   \<and> (activate_premium_code st user_id code_data now = (st1, Inr r)
       \<and> find_one (\<lambda>u. u_id u = other_id) (users st1) = Some other
    \<longrightarrow> (\<exists>st2.
           activate_premium_code st1 other_id code_data later
             = (st2, Inl (HTTPException 400 msg_codigo_ja_utilizado))
           \<and> users st2 = users st1 \<and> premium_codes st2 = premium_codes st1))"
proof (intro conjI impI)
  assume "find_one (\<lambda>u. u_id u = user_id) (users st) = Some user
     \<and> find_one (\<lambda>c. code c = upper (strip (get_str code_data))) (premium_codes st) = Some c
     \<and> used c"
  then show "\<exists>st' detail.
           activate_premium_code st user_id code_data now = (st', Inl (HTTPException 400 detail))
           \<and> users st' = users st \<and> premium_codes st' = premium_codes st
           \<and> (upper (strip (get_str code_data)) \<noteq> [] \<longrightarrow> detail = msg_codigo_ja_utilizado)"
    using activate_premium_code_used by blast
next
  assume a: "activate_premium_code st user_id code_data now = (st1, Inr r)
       \<and> find_one (\<lambda>u. u_id u = other_id) (users st1) = Some other"
  from activate_premium_code_marks_used[of st user_id code_data now st1 r] a
  obtain c' where ne: "upper (strip (get_str code_data)) \<noteq> []"
    and c': "find_one (\<lambda>c. code c = upper (strip (get_str code_data))) (premium_codes st1) = Some c'"
    and u': "used c'"
    by blast
  from activate_premium_code_used[OF conjunct2[OF a] c' u', of later] ne
  show "\<exists>st2. activate_premium_code st1 other_id code_data later
             = (st2, Inl (HTTPException 400 msg_codigo_ja_utilizado))
           \<and> users st2 = users st1 \<and> premium_codes st2 = premium_codes st1"
    by auto
qed


section \<open>Properties of the payment webhook\<close>

text \<open>
  C7. On a payment event that the gateway reports as approved for an e-mail address: when
  a user with that address exists, the user is premium afterwards with
  \<open>trial_ends_at\<close> equal to the clock reading plus 7 days (not 30) and no user is added;
  when no user has that address, the handler logs a warning, answers "user not found" and
  leaves the users untouched.
\<close>

theorem mercadopago_webhook_approved:
  assumes appr: "approved_for request access_token sdk mail"
  shows "(find_one (\<lambda>u. email u = Some mail) (users st) = Some user \<longrightarrow>
            (\<exists>st' resp u'.
               mercadopago_webhook st request access_token sdk t_log t_act t_exp = (st', resp)
               \<and> find_one (\<lambda>u. email u = Some mail) (users st') = Some u'
               \<and> is_premium u' \<and> premium_activated_at u' = Some t_act
               \<and> trial_ends_at u' = Some (t_exp + timedelta_days 7)
               \<and> trial_ends_at u' \<noteq> Some (t_exp + timedelta_days 30)
               \<and> length (users st') = length (users st)))
       \<and> (find_one (\<lambda>u. email u = Some mail) (users st) = None \<longrightarrow>
            (\<exists>st'.
               mercadopago_webhook st request access_token sdk t_log t_act t_exp
                 = (st', \<lparr>message = msg_usuario_nao_encontrado, error = None\<rparr>)
               \<and> users st' = users st
               \<and> logs st' = logs st @ [(INFO, ''Webhook MercadoPago recebido''),
                                        (WARNING, msg_usuario @ mail @ msg_nao_encontrado_no_banco)]))"
proof -
  from appr obtain payment where
    ev: "payment_event request" "truthy (wr_data_id request)" "truthy access_token"
    and sdk: "sdk (get_str (wr_data_id request)) = Inr payment"
    and ok: "pd_status payment = Some ''approved''"
    and em: "py_or (pd_user_email payment) (pd_external_reference payment) = Some mail"
    and ne: "mail \<noteq> []"
    by (auto simp: approved_for_def split: sum.splits)
  show ?thesis
  proof (intro conjI impI)
    assume found: "find_one (\<lambda>u. email u = Some mail) (users st) = Some user"
    let ?f = "\<lambda>u. u\<lparr>is_premium := True, premium_activated_at := Some t_act,
                      trial_ends_at := Some (t_exp + timedelta_days 7),
                      last_payment_id := Some (get_str (wr_data_id request)),
                      last_payment_status := Some ''approved'',
                      last_payment_amount := pd_transaction_amount payment\<rparr>"
    have pu: "email user = Some mail" using find_one_Some_holds[OF found] by simp
    have f: "find_one (\<lambda>u. email u = Some mail)
               (update_one (\<lambda>u. email u = Some mail) ?f (users st)) = Some (?f user)"
      by (rule find_one_update_one[OF found]) (simp add: pu)
    have d: "t_exp + timedelta_days 7 \<noteq> t_exp + timedelta_days 30"
      by (simp add: timedelta_days_def day_us_def)
    show "\<exists>st' resp u'.
               mercadopago_webhook st request access_token sdk t_log t_act t_exp = (st', resp)
               \<and> find_one (\<lambda>u. email u = Some mail) (users st') = Some u'
               \<and> is_premium u' \<and> premium_activated_at u' = Some t_act
               \<and> trial_ends_at u' = Some (t_exp + timedelta_days 7)
               \<and> trial_ends_at u' \<noteq> Some (t_exp + timedelta_days 30)
               \<and> length (users st') = length (users st)"
      using ev sdk ok em ne found f d
      by (simp add: mercadopago_webhook_def Let_def)
  next
    assume none: "find_one (\<lambda>u. email u = Some mail) (users st) = None"
    show "\<exists>st'.
               mercadopago_webhook st request access_token sdk t_log t_act t_exp
                 = (st', \<lparr>message = msg_usuario_nao_encontrado, error = None\<rparr>)
               \<and> users st' = users st
               \<and> logs st' = logs st @ [(INFO, ''Webhook MercadoPago recebido''),
                                        (WARNING, msg_usuario @ mail @ msg_nao_encontrado_no_banco)]"
      using ev sdk ok em ne none
      by (simp add: mercadopago_webhook_def Let_def get_str_def)
  qed
qed

section \<open>Properties of the daily entry store\<close>

text \<open>
  C8. On an existing entry whose \<open>products_photos\<close> and \<open>products_analysis\<close> have equal
  length, \<open>analyze_product_in_entry\<close> leaves them of equal length: when the analyzer
  answers, exactly one photo and exactly one analysis text are appended; when it fails,
  the entry is unchanged. An entry that \<open>create_daily_entry\<close> creates, for a given date or
  for today when the request has none, has both lists empty.
\<close>

theorem analyze_product_keeps_lengths:
  "(find_one (\<lambda>e. e_id e = entry_id) (daily_entries st) = Some entry
     \<and> length (products_photos entry) = length (products_analysis entry)
    \<longrightarrow> (\<exists>st' r entry'.
           analyze_product_in_entry st entry_id img ai now = (st', r)
           \<and> find_one (\<lambda>e. e_id e = entry_id) (daily_entries st') = Some entry'
           \<and> length (products_photos entry') = length (products_analysis entry')
           \<and> (\<forall>analysis. ai = Inr analysis \<longrightarrow>
                 r = Inr analysis
                 \<and> products_photos entry' = products_photos entry @ [img]
                 \<and> products_analysis entry' = products_analysis entry @ [analysis])
           \<and> (\<forall>e. ai = Inl e \<longrightarrow> r = Inl (HTTPException 500 e) \<and> entry' = entry)))
   \<and> (find_one (\<lambda>e. e_user_id e = uid
                  \<and> midnight (case entry_date of Some d \<Rightarrow> d | None \<Rightarrow> now0) \<le> date e
                  \<and> date e < midnight (case entry_date of Some d \<Rightarrow> d | None \<Rightarrow> now0)
                             + timedelta_days 1)
         (daily_entries st) = None
    \<longrightarrow> (\<exists>st' new_entry.
           create_daily_entry st uid entry_date now0 new_id created = (st', new_entry)
           \<and> daily_entries st' = daily_entries st @ [new_entry]
           \<and> products_photos new_entry = [] \<and> products_analysis new_entry = []))"
proof (intro conjI impI)
  assume a: "find_one (\<lambda>e. e_id e = entry_id) (daily_entries st) = Some entry
     \<and> length (products_photos entry) = length (products_analysis entry)"
  then have found: "find_one (\<lambda>e. e_id e = entry_id) (daily_entries st) = Some entry"
    and len: "length (products_photos entry) = length (products_analysis entry)"
    by simp_all
  have pe: "e_id entry = entry_id" using find_one_Some_holds[OF found] by simp
  show "\<exists>st' r entry'.
           analyze_product_in_entry st entry_id img ai now = (st', r)
           \<and> find_one (\<lambda>e. e_id e = entry_id) (daily_entries st') = Some entry'
           \<and> length (products_photos entry') = length (products_analysis entry')
           \<and> (\<forall>analysis. ai = Inr analysis \<longrightarrow>
                 r = Inr analysis
                 \<and> products_photos entry' = products_photos entry @ [img]
                 \<and> products_analysis entry' = products_analysis entry @ [analysis])
           \<and> (\<forall>e. ai = Inl e \<longrightarrow> r = Inl (HTTPException 500 e) \<and> entry' = entry)"
  proof (cases ai)
    case (Inl e)
    then show ?thesis using found len by (simp add: analyze_product_in_entry_def)
  next
    case (Inr analysis)
    let ?f = "\<lambda>e. e\<lparr>products_photos := products_photos entry @ [img],
                      products_analysis := products_analysis entry @ [analysis],
                      updated_at := now\<rparr>"
    have "find_one (\<lambda>e. e_id e = entry_id)
            (update_one (\<lambda>e. e_id e = entry_id) ?f (daily_entries st)) = Some (?f entry)"
      by (rule find_one_update_one[OF found]) (simp add: pe)
    then show ?thesis using Inr found len
      by (simp add: analyze_product_in_entry_def Let_def)
  qed
next
  assume "find_one (\<lambda>e. e_user_id e = uid
                  \<and> midnight (case entry_date of Some d \<Rightarrow> d | None \<Rightarrow> now0) \<le> date e
                  \<and> date e < midnight (case entry_date of Some d \<Rightarrow> d | None \<Rightarrow> now0)
                             + timedelta_days 1)
         (daily_entries st) = None"
  then show "\<exists>st' new_entry.
           create_daily_entry st uid entry_date now0 new_id created = (st', new_entry)
           \<and> daily_entries st' = daily_entries st @ [new_entry]
           \<and> products_photos new_entry = [] \<and> products_analysis new_entry = []"
    by (simp add: create_daily_entry_def Let_def insert_one_def DailyEntry_def)
qed

section \<open>Properties of the calendar gate\<close>

lemma check_date_eq: "midnight t + timedelta_days i = (date_key t + i) * day_us"
  by (simp add: midnight_def timedelta_days_def date_key_def algebra_simps)

lemma date_key_times: "date_key (k * day_us) = k"
  using day_us_pos by (simp add: date_key_def)

lemma date_key_offset: "date_key (midnight t + timedelta_days i) = date_key t + i"
  by (simp add: check_date_eq date_key_times)

lemma set_py_range: "set (py_range a b) = {a..b - 1}"
  by (simp add: py_range_def)

lemma days_loop_other:
  "k \<notin> (\<lambda>i. fst (body i)) ` set js \<Longrightarrow> days_loop body m js k = m k"
  by (induction js arbitrary: m) auto

lemma days_loop_at:
  "inj_on (\<lambda>i. fst (body i)) (set js) \<Longrightarrow> i \<in> set js
   \<Longrightarrow> days_loop body m js (fst (body i)) = Some (snd (body i))"
proof (induction js arbitrary: m)
  case Nil
  then show ?case by simp
next
  case (Cons j rest)
  have inj: "inj_on (\<lambda>i. fst (body i)) (set rest)"
    using Cons.prems(1) by (simp add: inj_on_def)
  show ?case
  proof (cases "i \<in> set rest")
    case True
    then show ?thesis using Cons.IH[OF inj True] by simp
  next
    case False
    with Cons.prems(2) have ij: "i = j" by simp
    have "fst (body j) \<notin> (\<lambda>i. fst (body i)) ` set rest"
    proof
      assume "fst (body j) \<in> (\<lambda>i. fst (body i)) ` set rest"
      then obtain k where k: "k \<in> set rest" "fst (body k) = fst (body j)" by auto
      then have "k = j" using Cons.prems(1) by (auto simp: inj_on_def)
      with k False ij show False by simp
    qed
    then show ?thesis using ij by (simp add: days_loop_other)
  qed
qed

lemma days_loop_dom:
  "dom (days_loop body m js) = dom m \<union> (\<lambda>i. fst (body i)) ` set js"
  by (induction js arbitrary: m) auto

lemma fst_day_body: "fst (day_body sub trial act (midnight now) ed i) = date_key now + i"
  by (simp add: day_body_def Let_def date_key_offset)

lemma status_day_body:
  "status (snd (day_body sub trial act (midnight now) ed i))
     = day_decision sub trial act ((date_key now + i) * day_us)"
  by (simp add: day_body_def Let_def check_date_eq split: option.splits)

lemma fst_blocked_body: "fst (blocked_body (midnight now) i) = date_key now + i"
  by (simp add: blocked_body_def date_key_offset)

lemma status_blocked_body: "status (snd (blocked_body today i)) = ''bloqueado''"
  by (simp add: blocked_body_def)

text \<open>A loop over \<open>range(a, b)\<close> whose keys are \<open>base + i\<close> fills exactly those days.\<close>

lemma window_loop:
  assumes fst: "\<And>i. fst (body i) = base + i"
  shows "days_loop body Map.empty (py_range a b) d
         = (if base + a \<le> d \<and> d \<le> base + b - 1 then Some (snd (body (d - base))) else None)"
proof (cases "base + a \<le> d \<and> d \<le> base + b - 1")
  case True
  then have mem: "d - base \<in> set (py_range a b)" by (simp add: set_py_range)
  have inj: "inj_on (\<lambda>i. fst (body i)) (set (py_range a b))"
    by (simp add: fst inj_on_def)
  from days_loop_at[OF inj mem, of Map.empty] True show ?thesis by (simp add: fst)
next
  case False
  then have "d \<notin> (\<lambda>i. fst (body i)) ` set (py_range a b)"
    by (auto simp: fst set_py_range)
  from days_loop_other[OF this, of Map.empty] False show ?thesis by simp
qed

lemma reported_activated:
  assumes found: "find_one (\<lambda>u. u_id u = user_id) (users st) = Some user"
    and act: "premium_activated_at user = Some activated"
  shows "reported st user_id now d
         = (if date_key now - 30 \<le> d \<and> d \<le> date_key now + 59
            then Some (day_decision (is_subscriber user) (trial_ends_at user)
                         (midnight activated) (d * day_us))
            else None)"
  using found act
  by (simp add: reported_def get_calendar_status_def Let_def
        window_loop[where base = "date_key now", OF fst_day_body] status_day_body)

lemma reported_never_activated:
  assumes found: "find_one (\<lambda>u. u_id u = user_id) (users st) = Some user"
    and act: "premium_activated_at user = None"
  shows "reported st user_id now d
         = (if date_key now - 30 \<le> d \<and> d \<le> date_key now + 29
            then Some ''bloqueado'' else None)"
  using found act
  by (simp add: reported_def get_calendar_status_def Let_def
        window_loop[where base = "date_key now", OF fst_blocked_body] status_blocked_body)

lemma reported_dom:
  "reported st user_id now d \<noteq> None \<longleftrightarrow>
     (\<exists>r. get_calendar_status st user_id now = Inr r \<and> d \<in> dom (calendar_status r))"
  by (auto simp: reported_def split: sum.splits)

lemma day_decision_trial_default:
  "day_decision False None (midnight activated) (d * day_us)
     = (if date_key activated \<le> d \<and> d \<le> date_key activated + 6 then ''liberado'' else ''bloqueado'')"
proof -
  have a: "midnight activated = date_key activated * day_us"
    by (simp add: midnight_def date_key_def)
  have b: "date_key activated * day_us + timedelta_days 7 = (date_key activated + 7) * day_us"
    by (simp add: timedelta_days_def algebra_simps)
  show ?thesis
    unfolding day_decision_def a
    using day_us_pos by (simp add: b)
qed

lemma image_offset: "(\<lambda>i. base + i) ` {a..b} = {base + a..base + (b::int)}"
proof
  show "(\<lambda>i. base + i) ` {a..b} \<subseteq> {base + a..base + b}" by auto
  show "{base + a..base + b} \<subseteq> (\<lambda>i. base + i) ` {a..b}"
  proof
    fix d assume "d \<in> {base + a..base + b}"
    then have "d - base \<in> {a..b}" "d = base + (d - base)" by auto
    then show "d \<in> (\<lambda>i. base + i) ` {a..b}" by blast
  qed
qed

lemma window_dom:
  assumes fst: "\<And>i. fst (body i) = base + i"
  shows "dom (days_loop body Map.empty (py_range a b)) = {base + a..base + (b - 1)}"
  by (simp add: days_loop_dom fst set_py_range image_offset)

text \<open>Facts about the example store.\<close>

lemmas ex_users = user_u1_def user_u2_def user_u3_def user_u4_def user_u7_def User_def

lemma ex_find_u1: "find_one (\<lambda>u. u_id u = ''u1'') (users example_db) = Some user_u1"
  by (simp add: example_db_def find_one_def ex_users)

lemma ex_find_u2: "find_one (\<lambda>u. u_id u = ''u2'') (users example_db) = Some user_u2"
  by (simp add: example_db_def find_one_def ex_users)

lemma ex_find_u4: "find_one (\<lambda>u. u_id u = ''u4'') (users example_db) = Some user_u4"
  by (simp add: example_db_def find_one_def ex_users)

lemma ex_today: "date_key (timedelta_days 110) = 110"
  by (simp add: timedelta_days_def date_key_times)

lemma ex_act_u1: "date_key (timedelta_days 100 + 3600) = 100"
  by (simp add: timedelta_days_def date_key_def day_us_def)

lemma ex_norm: "upper (strip (get_str (Some '' beluxab12cd34 ''))) = ''BELUXAB12CD34''"
  by code_simp

lemma ex_norm_mail: "lower (strip (get_str (Some '' New@X.com ''))) = ''new@x.com''"
  by code_simp

lemma ex_find_u3: "find_one (\<lambda>u. u_id u = ''u3'') (users example_db) = Some user_u3"
  by (simp add: example_db_def find_one_def ex_users)

lemma ex_find_ghost: "find_one (\<lambda>u. u_id u = ''ghost'') (users example_db) = None"
  by (simp add: example_db_def find_one_def ex_users)

lemma ex_u3:
  "is_premium user_u3"
  "premium_code_expires_at user_u3 = Some (timedelta_days 130)
   \<or> (premium_code_expires_at user_u3 = None \<and> trial_ends_at user_u3 = Some (timedelta_days 130))"
  by (simp_all add: ex_users)

lemma ex_u3_fields:
  "premium_code_expires_at user_u3 = Some (timedelta_days 130)"
  "trial_ends_at user_u3 = Some (timedelta_days 150)"
  by (simp_all add: ex_users)

lemma ex_find_u7: "find_one (\<lambda>u. u_id u = ''u7'') (users example_db) = Some user_u7"
  by (simp add: example_db_def find_one_def ex_users)

lemma ex_u7:
  "is_premium user_u7"
  "premium_code_expires_at user_u7 = Some (timedelta_days 140)
   \<or> (premium_code_expires_at user_u7 = None \<and> trial_ends_at user_u7 = Some (timedelta_days 140))"
  by (simp_all add: ex_users)

lemma ex_u7_fields:
  "premium_code_expires_at user_u7 = None"
  "trial_ends_at user_u7 = Some (timedelta_days 140)"
  by (simp_all add: ex_users)

lemma ex_norm2: "upper (strip (get_str (Some ''belux0000ffff''))) = ''BELUX0000FFFF''"
  by code_simp

lemma ex_find_code_used:
  "find_one (\<lambda>c. code c = ''BELUXAB12CD34'') (premium_codes example_db) = Some code_used"
  by (simp add: example_db_def find_one_def code_used_def)

lemma ex_find_code_fresh:
  "find_one (\<lambda>c. code c = ''BELUX0000FFFF'') (premium_codes example_db) = Some code_fresh"
  by (simp add: example_db_def find_one_def code_used_def code_fresh_def)

lemma ex_redeem:
  "snd (activate_premium_code example_db ''u1'' (Some ''belux0000ffff'') (timedelta_days 110))
   = Inr \<lparr>cd_message = msg_codigo_ativado, cd_expires_at = timedelta_days 140,
           cd_days_remaining = 30\<rparr>"
  "find_one (\<lambda>u. u_id u = ''u2'')
     (users (fst (activate_premium_code example_db ''u1'' (Some ''belux0000ffff'') (timedelta_days 110))))
   = Some user_u2"
  by (simp_all add: activate_premium_code_def Let_def ex_norm2 ex_find_u1 ex_find_code_fresh
        code_fresh_def timedelta_days_def)
     (simp add: example_db_def find_one_def ex_users)


lemma ex_approved:
  "approved_for payment_request (Some ''tok'') (approving_sdk mail) mail \<longleftrightarrow> mail \<noteq> []"
  by (auto simp: approved_for_def payment_request_def payment_event_def approving_sdk_def
        py_or_def get_str_def)

lemma ex_find_mail:
  "find_one (\<lambda>u. email u = Some ''a@x.com'') (users example_db) = Some user_u1"
  "find_one (\<lambda>u. email u = Some ''zz@x.com'') (users example_db) = None"
  by (simp_all add: example_db_def find_one_def ex_users)

lemma ex_find_e1:
  "find_one (\<lambda>e. e_id e = ''e1'') (daily_entries example_db) = Some entry_e1"
  by (simp add: example_db_def find_one_def entry_e1_def DailyEntry_def)

lemma ex_no_entry_105:
  "find_one (\<lambda>e. e_user_id e = ''u1'' \<and> midnight (timedelta_days 105 + 7) \<le> date e
               \<and> date e < midnight (timedelta_days 105 + 7) + timedelta_days 1)
     (daily_entries example_db) = None"
  by (simp add: example_db_def find_one_def entry_e1_def DailyEntry_def
        midnight_def timedelta_days_def day_us_def)

lemma ex_no_entry_today:
  "find_one (\<lambda>e. e_user_id e = ''u1'' \<and> midnight (timedelta_days 106 + 9) \<le> date e
               \<and> date e < midnight (timedelta_days 106 + 9) + timedelta_days 1)
     (daily_entries example_db) = None"
  by (simp add: example_db_def find_one_def entry_e1_def DailyEntry_def
        midnight_def timedelta_days_def day_us_def)

lemma ex_e1_lists:
  "length (products_photos entry_e1) = length (products_analysis entry_e1)"
  "products_photos entry_e1 = [''photo1'']" "products_analysis entry_e1 = [''analysis1'']"
  by (simp_all add: entry_e1_def)

text \<open>
  C1 as stated fails: on day 110 the subscriber \<open>u2\<close>, whose premium was never activated,
  gets today reported as blocked, and for the subscriber \<open>u4\<close>, whose premium is activated,
  day today + 60 is not in the response at all.
\<close>

theorem calendar_subscriber_counterexample:
  "find_one (\<lambda>u. u_id u = ''u2'') (users example_db) = Some user_u2
   \<and> is_subscriber user_u2 \<and> premium_activated_at user_u2 = None
   \<and> find_one (\<lambda>u. u_id u = ''u4'') (users example_db) = Some user_u4
   \<and> is_subscriber user_u4
   \<and> date_key (timedelta_days 110) = 110
   \<and> reported example_db ''u2'' (timedelta_days 110) 110 = Some ''bloqueado''
   \<and> reported example_db ''u4'' (timedelta_days 110) (110 + 60) = None"
proof -
  have u2: "is_subscriber user_u2" "premium_activated_at user_u2 = None"
    by (simp_all add: ex_users)
  have u4: "is_subscriber user_u4" "premium_activated_at user_u4 = Some (timedelta_days 100)"
    by (simp_all add: ex_users)
  show ?thesis
    using reported_never_activated[OF ex_find_u2 u2(2), of "timedelta_days 110" 110]
      reported_activated[OF ex_find_u4 u4(2), of "timedelta_days 110" "110 + 60"]
    by (simp add: ex_find_u2 ex_find_u4 u2 u4 ex_today)
qed
text \<open>
  C1, amended. For every subscriber whose \<open>premium_activated_at\<close> is set, the gate reports
  every day from today - 30 to today + 59 as unlocked, whatever the activation date is.
\<close>

theorem calendar_subscriber_unlocked:
  assumes found: "find_one (\<lambda>u. u_id u = user_id) (users st) = Some user"
    and sub: "is_subscriber user"
    and act: "premium_activated_at user = Some activated"
    and lo: "date_key now - 30 \<le> d" and hi: "d \<le> date_key now + 59"
  shows "reported st user_id now d = Some ''liberado''"
  using reported_activated[OF found act, of now d] sub lo hi
  by (simp add: day_decision_def)

theorem calendar_subscriber_unlocked_witness:
  "find_one (\<lambda>u. u_id u = ''u4'') (users example_db) = Some user_u4
   \<and> is_subscriber user_u4
   \<and> premium_activated_at user_u4 = Some (timedelta_days 100)
   \<and> date_key (timedelta_days 110) - 30 \<le> 80 \<and> 169 \<le> date_key (timedelta_days 110) + 59
   \<and> reported example_db ''u4'' (timedelta_days 110) 80 = Some ''liberado''
   \<and> reported example_db ''u4'' (timedelta_days 110) 169 = Some ''liberado''"
proof -
  have u4: "is_subscriber user_u4" "premium_activated_at user_u4 = Some (timedelta_days 100)"
    by (simp_all add: ex_users)
  have lo: "date_key (timedelta_days 110) - 30 \<le> 80" "80 \<le> date_key (timedelta_days 110) + 59"
    and hi: "date_key (timedelta_days 110) - 30 \<le> 169" "169 \<le> date_key (timedelta_days 110) + 59"
    by (simp_all add: ex_today)
  show ?thesis
    using calendar_subscriber_unlocked[OF ex_find_u4 u4 lo]
      calendar_subscriber_unlocked[OF ex_find_u4 u4 hi]
    by (simp add: ex_find_u4 u4 ex_today)
qed
text \<open>
  C2 as stated fails: on day 110 the response for the activated user \<open>u1\<close> does not hold
  day today + 60, and the response for \<open>u2\<close>, whose premium was never activated, does not
  hold day today + 30, which the response for \<open>u1\<close> does.
\<close>

theorem calendar_window_counterexample:
  "find_one (\<lambda>u. u_id u = ''u1'') (users example_db) = Some user_u1
   \<and> find_one (\<lambda>u. u_id u = ''u2'') (users example_db) = Some user_u2
   \<and> date_key (timedelta_days 110) = 110
   \<and> reported example_db ''u1'' (timedelta_days 110) (110 + 60) = None
   \<and> reported example_db ''u1'' (timedelta_days 110) (110 + 30) = Some ''bloqueado''
   \<and> reported example_db ''u2'' (timedelta_days 110) (110 + 30) = None"
proof -
  have u1: "premium_activated_at user_u1 = Some (timedelta_days 100 + 3600)"
    "\<not> is_subscriber user_u1" "trial_ends_at user_u1 = None"
    by (simp_all add: ex_users)
  have u2: "premium_activated_at user_u2 = None"
    by (simp add: ex_users)
  show ?thesis
    using reported_activated[OF ex_find_u1 u1(1), of "timedelta_days 110" "110 + 60"]
      reported_activated[OF ex_find_u1 u1(1), of "timedelta_days 110" "110 + 30"]
      reported_never_activated[OF ex_find_u2 u2, of "timedelta_days 110" "110 + 30"]
    by (simp add: ex_find_u1 ex_find_u2 u1 ex_today ex_act_u1 day_decision_trial_default)
qed
text \<open>
  C2, amended. For every existing user whose \<open>premium_activated_at\<close> is set, subscriber
  or not, the response covers exactly the days from today - 30 to today + 59; for a user
  whose premium was never activated it covers exactly the days from today - 30 to
  today + 29, every one of them blocked.
\<close>

theorem calendar_window:
  assumes found: "find_one (\<lambda>u. u_id u = user_id) (users st) = Some user"
  shows "\<exists>r. get_calendar_status st user_id now = Inr r
           \<and> (premium_activated_at user \<noteq> None \<longrightarrow>
                dom (calendar_status r) = {date_key now - 30..date_key now + 59})
           \<and> (premium_activated_at user = None \<longrightarrow>
                dom (calendar_status r) = {date_key now - 30..date_key now + 29}
                \<and> (\<forall>d\<in>dom (calendar_status r).
                      map_option status (calendar_status r d) = Some ''bloqueado''))"
proof (cases "premium_activated_at user")
  case None
  have "\<And>d. date_key now - 30 \<le> d \<and> d \<le> date_key now + 29 \<Longrightarrow>
     map_option status
       (days_loop (blocked_body (midnight now)) Map.empty (py_range (- 30) 30) d) = Some ''bloqueado''"
    by (simp add: window_loop[where base = "date_key now", OF fst_blocked_body] status_blocked_body)
  then show ?thesis using found None
    by (simp add: get_calendar_status_def Let_def
          window_dom[where base = "date_key now", OF fst_blocked_body])
next
  case (Some a)
  then show ?thesis using found
    by (simp add: get_calendar_status_def Let_def
          window_dom[where base = "date_key now", OF fst_day_body])
qed

theorem calendar_window_witness:
  "find_one (\<lambda>u. u_id u = ''u1'') (users example_db) = Some user_u1
   \<and> premium_activated_at user_u1 \<noteq> None
   \<and> (\<exists>r. get_calendar_status example_db ''u1'' (timedelta_days 110) = Inr r
          \<and> dom (calendar_status r) = {80..169})
   \<and> find_one (\<lambda>u. u_id u = ''u2'') (users example_db) = Some user_u2
   \<and> premium_activated_at user_u2 = None
   \<and> (\<exists>r. get_calendar_status example_db ''u2'' (timedelta_days 110) = Inr r
          \<and> dom (calendar_status r) = {80..139}
          \<and> (\<forall>d\<in>dom (calendar_status r).
                map_option status (calendar_status r d) = Some ''bloqueado''))"
proof -
  have u1: "premium_activated_at user_u1 \<noteq> None" by (simp add: ex_users)
  have u2: "premium_activated_at user_u2 = None" by (simp add: ex_users)
  show ?thesis
    using calendar_window[OF ex_find_u1, of "timedelta_days 110"]
      calendar_window[OF ex_find_u2, of "timedelta_days 110"]
    by (simp add: ex_find_u1 ex_find_u2 u1 u2 ex_today)
qed



section \<open>The theorems at the example store\<close>

theorem activate_subscription_unknown_user_witness:
  "find_one (\<lambda>u. u_id u = ''ghost'') (users example_db) = None
   \<and> activate_subscription example_db ''ghost'' (timedelta_days 120)
       = (example_db, Inr ''Assinatura ativada com sucesso'')"
  using activate_subscription_unknown_user [OF ex_find_ghost, of "timedelta_days 120"]
  by (simp add: ex_find_ghost)

theorem check_premium_status_expiry_witness:
  "find_one (\<lambda>u. u_id u = ''u3'') (users example_db) = Some user_u3
   \<and> is_premium user_u3
   \<and> premium_code_expires_at user_u3 = Some (timedelta_days 130)
   \<and> trial_ends_at user_u3 = Some (timedelta_days 150)
   \<and> timedelta_days 131 > timedelta_days 130
   \<and> (\<exists>st' r u'. check_premium_status example_db ''u3'' (timedelta_days 131) = (st', Inr r)
         \<and> ps_status r = ''expired'' \<and> \<not> ps_is_premium r
         \<and> find_one (\<lambda>u. u_id u = ''u3'') (users st') = Some u' \<and> \<not> is_premium u')
   \<and> \<not> timedelta_days 127 + 1 > timedelta_days 130
   \<and> (\<exists>r. check_premium_status example_db ''u3'' (timedelta_days 127 + 1) = (example_db, Inr r)
         \<and> ps_status r = ''active'' \<and> ps_is_premium r
         \<and> ps_days_remaining r = Some 2)
   \<and> find_one (\<lambda>u. u_id u = ''u7'') (users example_db) = Some user_u7
   \<and> is_premium user_u7
   \<and> premium_code_expires_at user_u7 = None
   \<and> trial_ends_at user_u7 = Some (timedelta_days 140)
   \<and> timedelta_days 141 > timedelta_days 140
   \<and> (\<exists>st' r u'. check_premium_status example_db ''u7'' (timedelta_days 141) = (st', Inr r)
         \<and> ps_status r = ''expired'' \<and> \<not> ps_is_premium r
         \<and> find_one (\<lambda>u. u_id u = ''u7'') (users st') = Some u' \<and> \<not> is_premium u')"
proof -
  have a: "timedelta_days 131 > timedelta_days 130"
    by (simp add: timedelta_days_def day_us_def)
  have b: "\<not> timedelta_days 127 + 1 > timedelta_days 130"
    by (simp add: timedelta_days_def day_us_def)
  have e: "timedelta_days 141 > timedelta_days 140"
    by (simp add: timedelta_days_def day_us_def)
  have c: "n * day_us \<le> timedelta_days 130 - (timedelta_days 127 + 1)
           \<and> timedelta_days 130 - (timedelta_days 127 + 1) < (n + 1) * day_us \<Longrightarrow> n = 2" for n
    by (simp add: timedelta_days_def day_us_def)
  from check_premium_status_expiry [OF ex_find_u3 ex_u3, of "timedelta_days 127 + 1"] b
  obtain r n where act:
    "check_premium_status example_db ''u3'' (timedelta_days 127 + 1) = (example_db, Inr r)"
    "ps_status r = ''active''" "ps_is_premium r" "ps_days_remaining r = Some n"
    "n * day_us \<le> timedelta_days 130 - (timedelta_days 127 + 1)"
    "timedelta_days 130 - (timedelta_days 127 + 1) < (n + 1) * day_us"
    by blast
  then have "n = 2" using c by blast
  with act have active: "\<exists>r. check_premium_status example_db ''u3'' (timedelta_days 127 + 1)
         = (example_db, Inr r)
         \<and> ps_status r = ''active'' \<and> ps_is_premium r \<and> ps_days_remaining r = Some 2"
    by blast
  have late3: "\<exists>st' r u'. check_premium_status example_db ''u3'' (timedelta_days 131) = (st', Inr r)
         \<and> ps_status r = ''expired'' \<and> \<not> ps_is_premium r
         \<and> find_one (\<lambda>u. u_id u = ''u3'') (users st') = Some u' \<and> \<not> is_premium u'"
    using check_premium_status_expiry [OF ex_find_u3 ex_u3, of "timedelta_days 131"] a
    by blast
  have late5: "\<exists>st' r u'. check_premium_status example_db ''u7'' (timedelta_days 141) = (st', Inr r)
         \<and> ps_status r = ''expired'' \<and> \<not> ps_is_premium r
         \<and> find_one (\<lambda>u. u_id u = ''u7'') (users st') = Some u' \<and> \<not> is_premium u'"
    using check_premium_status_expiry [OF ex_find_u7 ex_u7, of "timedelta_days 141"] e
    by blast
  show ?thesis
    using ex_find_u3 ex_u3(1) ex_u3_fields a late3 b active ex_find_u7 ex_u7(1) ex_u7_fields e late5
    by (intro conjI) simp_all
qed

theorem activate_premium_code_used_rejected_witness:
  "find_one (\<lambda>u. u_id u = ''u1'') (users example_db) = Some user_u1
   \<and> find_one (\<lambda>c. code c = upper (strip (get_str (Some '' beluxab12cd34 ''))))
        (premium_codes example_db) = Some code_used
   \<and> used code_used
   \<and> (\<exists>st'. activate_premium_code example_db ''u1'' (Some '' beluxab12cd34 '') (timedelta_days 110)
               = (st', Inl (HTTPException 400 msg_codigo_ja_utilizado))
             \<and> users st' = users example_db \<and> premium_codes st' = premium_codes example_db)
   \<and> snd (activate_premium_code example_db ''u1'' (Some ''belux0000ffff'') (timedelta_days 110))
       = Inr \<lparr>cd_message = msg_codigo_ativado, cd_expires_at = timedelta_days 140,
               cd_days_remaining = 30\<rparr>
   \<and> find_one (\<lambda>u. u_id u = ''u2'')
        (users (fst (activate_premium_code example_db ''u1'' (Some ''belux0000ffff'')
                       (timedelta_days 110)))) = Some user_u2
   \<and> (\<exists>st2. activate_premium_code
                 (fst (activate_premium_code example_db ''u1'' (Some ''belux0000ffff'')
                         (timedelta_days 110)))
                 ''u2'' (Some ''belux0000ffff'') (timedelta_days 111)
               = (st2, Inl (HTTPException 400 msg_codigo_ja_utilizado))
             \<and> users st2 = users (fst (activate_premium_code example_db ''u1''
                                          (Some ''belux0000ffff'') (timedelta_days 110)))
             \<and> premium_codes st2 = premium_codes (fst (activate_premium_code example_db ''u1''
                                          (Some ''belux0000ffff'') (timedelta_days 110))))"
proof -
  let ?st1 = "fst (activate_premium_code example_db ''u1'' (Some ''belux0000ffff'') (timedelta_days 110))"
  let ?r = "\<lparr>cd_message = msg_codigo_ativado, cd_expires_at = timedelta_days 140,
             cd_days_remaining = 30\<rparr>"
  have h2: "find_one (\<lambda>c. code c = upper (strip (get_str (Some '' beluxab12cd34 ''))))
              (premium_codes example_db) = Some code_used"
    by (simp add: ex_norm ex_find_code_used)
  have h3: "used code_used" by (simp add: code_used_def)
  have ne: "upper (strip (get_str (Some '' beluxab12cd34 ''))) \<noteq> []"
    by (simp add: ex_norm)
  have ok: "activate_premium_code example_db ''u1'' (Some ''belux0000ffff'') (timedelta_days 110)
            = (?st1, Inr ?r)"
    using ex_redeem(1) by (simp add: prod_eq_iff)
  note t1 = activate_premium_code_used_rejected
      [of "''u1''" example_db user_u1 "Some '' beluxab12cd34 ''" code_used "timedelta_days 110",
       THEN conjunct1]
  note t2 = activate_premium_code_used_rejected
      [of "''u1''" example_db _ "Some ''belux0000ffff''" _ "timedelta_days 110" ?st1 ?r
          "''u2''" user_u2 "timedelta_days 111",
       THEN conjunct2]
  show ?thesis
    using t1 t2 ex_find_u1 h2 h3 ne ok ex_redeem
    by blast
qed


theorem mercadopago_webhook_approved_witness:
  "approved_for payment_request (Some ''tok'') (approving_sdk ''a@x.com'') ''a@x.com''
   \<and> find_one (\<lambda>u. email u = Some ''a@x.com'') (users example_db) = Some user_u1
   \<and> (\<exists>st' resp u'.
         mercadopago_webhook example_db payment_request (Some ''tok'') (approving_sdk ''a@x.com'')
           (timedelta_days 110) (timedelta_days 110 + 1) (timedelta_days 110 + 2) = (st', resp)
         \<and> find_one (\<lambda>u. email u = Some ''a@x.com'') (users st') = Some u'
         \<and> is_premium u' \<and> premium_activated_at u' = Some (timedelta_days 110 + 1)
         \<and> trial_ends_at u' = Some (timedelta_days 110 + 2 + timedelta_days 7)
         \<and> length (users st') = length (users example_db))
   \<and> approved_for payment_request (Some ''tok'') (approving_sdk ''zz@x.com'') ''zz@x.com''
   \<and> find_one (\<lambda>u. email u = Some ''zz@x.com'') (users example_db) = None
   \<and> (\<exists>st'.
         mercadopago_webhook example_db payment_request (Some ''tok'') (approving_sdk ''zz@x.com'')
           (timedelta_days 110) (timedelta_days 110 + 1) (timedelta_days 110 + 2)
           = (st', \<lparr>message = msg_usuario_nao_encontrado, error = None\<rparr>)
         \<and> users st' = users example_db
         \<and> logs st' = logs example_db @ [(INFO, ''Webhook MercadoPago recebido''),
              (WARNING, msg_usuario @ ''zz@x.com'' @ msg_nao_encontrado_no_banco)])"
proof -
  have a: "approved_for payment_request (Some ''tok'') (approving_sdk ''a@x.com'') ''a@x.com''"
    by (simp add: ex_approved)
  have z: "approved_for payment_request (Some ''tok'') (approving_sdk ''zz@x.com'') ''zz@x.com''"
    by (simp add: ex_approved)
  show ?thesis
    using mercadopago_webhook_approved [OF a, of example_db user_u1
        "timedelta_days 110" "timedelta_days 110 + 1" "timedelta_days 110 + 2"]
      mercadopago_webhook_approved [OF z, of example_db user_u1
        "timedelta_days 110" "timedelta_days 110 + 1" "timedelta_days 110 + 2"]
      a z ex_find_mail
    by blast
qed

theorem analyze_product_keeps_lengths_witness:
  "find_one (\<lambda>e. e_id e = ''e1'') (daily_entries example_db) = Some entry_e1
   \<and> length (products_photos entry_e1) = length (products_analysis entry_e1)
   \<and> (\<exists>st' entry'.
         analyze_product_in_entry example_db ''e1'' ''photo2'' (Inr ''analysis2'') (timedelta_days 101)
           = (st', Inr ''analysis2'')
         \<and> find_one (\<lambda>e. e_id e = ''e1'') (daily_entries st') = Some entry'
         \<and> products_photos entry' = [''photo1'', ''photo2'']
         \<and> products_analysis entry' = [''analysis1'', ''analysis2''])
   \<and> find_one (\<lambda>e. e_user_id e = ''u1'' \<and> midnight (timedelta_days 105 + 7) \<le> date e
                  \<and> date e < midnight (timedelta_days 105 + 7) + timedelta_days 1)
        (daily_entries example_db) = None
   \<and> (\<exists>st' new_entry.
         create_daily_entry example_db ''u1'' (Some (timedelta_days 105 + 7)) (timedelta_days 106)
           ''e2'' (timedelta_days 106) = (st', new_entry)
         \<and> daily_entries st' = daily_entries example_db @ [new_entry]
         \<and> products_photos new_entry = [] \<and> products_analysis new_entry = [])
   \<and> find_one (\<lambda>e. e_user_id e = ''u1'' \<and> midnight (timedelta_days 106 + 9) \<le> date e
                  \<and> date e < midnight (timedelta_days 106 + 9) + timedelta_days 1)
        (daily_entries example_db) = None
   \<and> (\<exists>st' new_entry.
         create_daily_entry example_db ''u1'' None (timedelta_days 106 + 9)
           ''e3'' (timedelta_days 106 + 9) = (st', new_entry)
         \<and> daily_entries st' = daily_entries example_db @ [new_entry]
         \<and> products_photos new_entry = [] \<and> products_analysis new_entry = [])"
proof -
  have h1: "find_one (\<lambda>e. e_id e = ''e1'') (daily_entries example_db) = Some entry_e1
            \<and> length (products_photos entry_e1) = length (products_analysis entry_e1)"
    using ex_find_e1 ex_e1_lists(1) by simp
  from analyze_product_keeps_lengths
      [where st = example_db and entry_id = "''e1''" and entry = entry_e1 and img = "''photo2''"
         and ai = "Inr ''analysis2''" and now = "timedelta_days 101",
       THEN conjunct1, rule_format, OF h1]
  obtain st' r entry' where
    a: "analyze_product_in_entry example_db ''e1'' ''photo2'' (Inr ''analysis2'') (timedelta_days 101)
       = (st', r)"
    and b: "find_one (\<lambda>e. e_id e = ''e1'') (daily_entries st') = Some entry'"
    and c: "\<forall>analysis. Inr ''analysis2'' = (Inr analysis :: string + string) \<longrightarrow>
              r = Inr analysis
              \<and> products_photos entry' = products_photos entry_e1 @ [''photo2'']
              \<and> products_analysis entry' = products_analysis entry_e1 @ [analysis]"
    by blast
  from c have d: "r = Inr ''analysis2''"
    "products_photos entry' = [''photo1'', ''photo2'']"
    "products_analysis entry' = [''analysis1'', ''analysis2'']"
    by (simp_all add: ex_e1_lists)
  have p1: "\<exists>st' entry'.
         analyze_product_in_entry example_db ''e1'' ''photo2'' (Inr ''analysis2'') (timedelta_days 101)
           = (st', Inr ''analysis2'')
         \<and> find_one (\<lambda>e. e_id e = ''e1'') (daily_entries st') = Some entry'
         \<and> products_photos entry' = [''photo1'', ''photo2'']
         \<and> products_analysis entry' = [''analysis1'', ''analysis2'']"
    using a b d by blast
  have p2: "\<exists>st' new_entry.
         create_daily_entry example_db ''u1'' (Some (timedelta_days 105 + 7)) (timedelta_days 106)
           ''e2'' (timedelta_days 106) = (st', new_entry)
         \<and> daily_entries st' = daily_entries example_db @ [new_entry]
         \<and> products_photos new_entry = [] \<and> products_analysis new_entry = []"
    using analyze_product_keeps_lengths
      [where st = example_db and uid = "''u1''" and entry_date = "Some (timedelta_days 105 + 7)"
         and ?now0.0 = "timedelta_days 106" and new_id = "''e2''" and created = "timedelta_days 106",
       THEN conjunct2] ex_no_entry_105
    by simp
  have p3: "\<exists>st' new_entry.
         create_daily_entry example_db ''u1'' None (timedelta_days 106 + 9)
           ''e3'' (timedelta_days 106 + 9) = (st', new_entry)
         \<and> daily_entries st' = daily_entries example_db @ [new_entry]
         \<and> products_photos new_entry = [] \<and> products_analysis new_entry = []"
    using analyze_product_keeps_lengths
      [where st = example_db and uid = "''u1''" and entry_date = None
         and ?now0.0 = "timedelta_days 106 + 9" and new_id = "''e3''"
         and created = "timedelta_days 106 + 9",
       THEN conjunct2] ex_no_entry_today
    by simp
  show ?thesis
    using h1 p1 ex_no_entry_105 p2 ex_no_entry_today p3 by (intro conjI) simp_all
qed

end
